theory Spec2Isabelle
  imports Complex_Main "HOL-Library.AList"
begin

section \<open>JavaScript values\<close>

text \<open>
  The upload components work on untyped JavaScript values (\<^verbatim>\<open>any\<close>).  A number is an
  IEEE double: every finite double is a rational, and the only thing the pipeline asks of
  a number is its \<^verbatim>\<open>typeof\<close> and whether it is falsy (zero or NaN), so the sign of zero
  is not kept.  A string is a list of UTF-16 code units below 256, the Latin-1 range:
  the character with code \<open>n\<close> is the code unit \<open>n\<close>.  A string with any other code
  unit is outside the model.  An object is the list of its own enumerable properties in
  the order \<^verbatim>\<open>Object.entries\<close> lists them (the keys that are array indices first, in
  ascending order, then the other keys in the order of their creation); its keys are
  distinct.
\<close>

datatype jsnum = NaN | Fin rat | Infinity bool

datatype jsval =
    JUndefined
  | JNull
  | JBool bool
  | JNum jsnum
  | JStr string
  | JArr "jsval list"
  | JObj "(string \<times> jsval) list"

type_synonym jsobject = "(string \<times> jsval) list"

text \<open>A thrown value: an \<^verbatim>\<open>Error\<close> instance with its message, or anything else.\<close>

datatype exn = Error string | Thrown jsval

fun typeof :: "jsval \<Rightarrow> string" where
  "typeof JUndefined = ''undefined''"
| "typeof JNull = ''object''"
| "typeof (JBool b) = ''boolean''"
| "typeof (JNum n) = ''number''"
| "typeof (JStr s) = ''string''"
| "typeof (JArr xs) = ''object''"
| "typeof (JObj kvs) = ''object''"

text \<open>\<^verbatim>\<open>Boolean(v)\<close>: the values that are not falsy.\<close>

fun truthy :: "jsval \<Rightarrow> bool" where
  "truthy JUndefined = False"
| "truthy JNull = False"
| "truthy (JBool b) = b"
| "truthy (JNum n) = (n \<noteq> NaN \<and> n \<noteq> Fin 0)"
| "truthy (JStr s) = (s \<noteq> [])"
| "truthy (JArr xs) = True"
| "truthy (JObj kvs) = True"

text \<open>\<^verbatim>\<open>a || b\<close>\<close>

definition js_or :: "jsval \<Rightarrow> jsval \<Rightarrow> jsval" where
  "js_or a b = (if truthy a then a else b)"

subsection \<open>Strings\<close>

text \<open>
  \<^verbatim>\<open>s.toLowerCase()\<close>: the upper-case letters of Latin-1 are A to Z (65 to 90) and the
  letters from U+00C0 to U+00DE, the multiplication sign U+00D7 apart; each has its
  lower-case letter 32 places further.
\<close>

definition lower_char :: "char \<Rightarrow> char" where
  "lower_char c =
     (let n = (of_char c :: nat)
      in if (65 \<le> n \<and> n \<le> 90) \<or> (192 \<le> n \<and> n \<le> 222 \<and> n \<noteq> 215)
         then char_of (n + 32) else c)"

definition toLowerCase :: "string \<Rightarrow> string" where
  "toLowerCase s = map lower_char s"

text \<open>\<^verbatim>\<open>s.split(c)\<close> for a one-character separator: never the empty list.\<close>

fun split :: "char \<Rightarrow> string \<Rightarrow> string list" where
  "split c [] = [[]]"
| "split c (x # xs) =
     (if x = c then [] # split c xs
      else (case split c xs of [] \<Rightarrow> [[x]] | y # ys \<Rightarrow> (x # y) # ys))"

text \<open>\<^verbatim>\<open>parts.pop()\<close>: the last element, \<^verbatim>\<open>undefined\<close> on the empty array.\<close>

definition pop :: "'a list \<Rightarrow> 'a option" where
  "pop xs = (if xs = [] then None else Some (last xs))"

text \<open>
  \<^verbatim>\<open>s.trim()\<close> strips white space and line terminators: below 256 these are the
  characters 9 to 13, the space 32 and the no-break space U+00A0 (160).
\<close>

definition is_space :: "char \<Rightarrow> bool" where
  "is_space c = (let n = (of_char c :: nat) in n = 32 \<or> n = 160 \<or> (9 \<le> n \<and> n \<le> 13))"

definition trim :: "string \<Rightarrow> string" where
  "trim s = rev (dropWhile is_space (rev (dropWhile is_space s)))"

text \<open>\<^verbatim>\<open>s.includes(sub)\<close>\<close>

fun starts_with :: "string \<Rightarrow> string \<Rightarrow> bool" where
  "starts_with s [] = True"
| "starts_with [] (p # ps) = False"
| "starts_with (c # cs) (p # ps) = (c = p \<and> starts_with cs ps)"

fun str_includes :: "string \<Rightarrow> string \<Rightarrow> bool" where
  "str_includes [] sub = (sub = [])"
| "str_includes (c # cs) sub = (starts_with (c # cs) sub \<or> str_includes cs sub)"

text \<open>The decimal form of an array index, as a property key.\<close>

function index_key :: "nat \<Rightarrow> string" where
  "index_key n =
     (if n < 10 then [char_of (48 + n)]
      else index_key (n div 10) @ [char_of (48 + n mod 10)])"
  by pat_completeness auto
termination
  by (relation "measure id") auto

declare index_key.simps [simp del]

subsection \<open>Objects\<close>

text \<open>
  \<^verbatim>\<open>Object.entries(v)\<close>: the properties of an object, the indexed elements of an array,
  the one-character strings of a string, nothing for a number or a boolean, and a
  TypeError for \<^verbatim>\<open>null\<close> and \<^verbatim>\<open>undefined\<close>.
\<close>

definition null_to_object :: exn where
  "null_to_object = Error ''Cannot convert undefined or null to object''"

fun Object_entries :: "jsval \<Rightarrow> exn + jsobject" where
  "Object_entries (JObj kvs) = Inr kvs"
| "Object_entries (JArr xs) = Inr (zip (map index_key [0..<length xs]) xs)"
| "Object_entries (JStr s) = Inr (zip (map index_key [0..<length s]) (map (\<lambda>c. JStr [c]) s))"
| "Object_entries (JNum n) = Inr []"
| "Object_entries (JBool b) = Inr []"
| "Object_entries JNull = Inl null_to_object"
| "Object_entries JUndefined = Inl null_to_object"

definition Object_keys :: "jsval \<Rightarrow> exn + string list" where
  "Object_keys v = map_sum id (map fst) (Object_entries v)"

text \<open>
  An array index is the canonical decimal form (no sign, no leading zero) of a number
  below \<open>2^32 - 1\<close>.
\<close>

definition is_digit :: "char \<Rightarrow> bool" where
  "is_digit c = (let n = (of_char c :: nat) in 48 \<le> n \<and> n \<le> 57)"

definition decimal :: "string \<Rightarrow> int" where
  "decimal s = foldl (\<lambda>n c. 10 * n + (of_char c - 48)) 0 s"

definition array_index :: "string \<Rightarrow> int option" where
  "array_index key =
     (case key of
        [] \<Rightarrow> None
      | c # cs \<Rightarrow>
          if list_all is_digit key \<and> (cs = [] \<or> c \<noteq> CHR ''0'') \<and> decimal key < 4294967295
          then Some (decimal key) else None)"

text \<open>A new array index goes before the first key that is a greater index or no index.\<close>

fun insert_index :: "int \<Rightarrow> string \<Rightarrow> 'v \<Rightarrow> (string \<times> 'v) list \<Rightarrow> (string \<times> 'v) list" where
  "insert_index n key v [] = [(key, v)]"
| "insert_index n key v (p # ps) =
     (case array_index (fst p) of
        None \<Rightarrow> (key, v) # p # ps
      | Some m \<Rightarrow> if m < n then p # insert_index n key v ps else (key, v) # p # ps)"

text \<open>
  \<^verbatim>\<open>obj[key] = value\<close> on an object created by \<^verbatim>\<open>{}\<close>.  The key \<^verbatim>\<open>__proto__\<close> is the
  accessor of \<^verbatim>\<open>Object.prototype\<close>: the assignment calls its setter and stores no
  property.  Any other key is updated in place when the object has it, and created
  otherwise: an array index among the indices, in ascending order, any other key at the
  end.
\<close>

definition set_prop :: "string \<Rightarrow> 'v \<Rightarrow> (string \<times> 'v) list \<Rightarrow> (string \<times> 'v) list" where
  "set_prop key v obj =
     (if key = ''__proto__'' then obj
      else if key \<in> fst ` set obj then AList.update key v obj
      else (case array_index key of
              None \<Rightarrow> obj @ [(key, v)]
            | Some n \<Rightarrow> insert_index n key v obj))"

section \<open>Type inference: analyzeDataTypes\<close>

text \<open>
  \<^verbatim>\<open>Date.parse\<close> belongs to the JavaScript engine: the test
  \<^verbatim>\<open>!isNaN(Date.parse(value))\<close> is the parameter \<open>date_ok\<close>.
\<close>

definition column_type :: "(string \<Rightarrow> bool) \<Rightarrow> jsval \<Rightarrow> string" where
  "column_type date_ok v =
     (if typeof v = ''number'' then ''number''
      else if typeof v = ''boolean'' then ''boolean''
      else if typeof v = ''string'' then
        (case v of
           JStr s \<Rightarrow>
             if str_includes s ''@'' then ''email''
             else if date_ok s then ''date''
             else ''string''
         | _ \<Rightarrow> ''string'')
      else ''string'')"

definition analyzeDataTypes :: "(string \<Rightarrow> bool) \<Rightarrow> jsval list \<Rightarrow> exn + (string \<times> string) list" where
  "analyzeDataTypes date_ok data =
     (case data of
        [] \<Rightarrow> Inr []
      | sample # _ \<Rightarrow>
          (case Object_entries sample of
             Inl e \<Rightarrow> Inl e
           | Inr entries \<Rightarrow>
               Inr (fold (\<lambda>(key, v) types. set_prop key (column_type date_ok v) types)
                      entries [])))"

section \<open>Files and libraries\<close>

text \<open>
  A \<^verbatim>\<open>File\<close> has a name, a size and contents; reading the contents (\<^verbatim>\<open>file.text()\<close>,
  \<^verbatim>\<open>file.arrayBuffer()\<close>, a \<^verbatim>\<open>FileReader\<close>) gives the bytes or fails with the platform's
  error.
\<close>

record File =
  name :: string
  fsize :: nat
  content :: "exn + string"

text \<open>
  Papa Parse, SheetJS, \<^verbatim>\<open>JSON.parse\<close>, \<^verbatim>\<open>Date.parse\<close> and the number-to-string
  conversion are not code of the repository: they are parameters.  Of a Papa Parse result
  the components read \<^verbatim>\<open>errors\<close> (their messages), \<^verbatim>\<open>data\<close> (with \<^verbatim>\<open>header: true\<close>, one
  object for each row) and \<^verbatim>\<open>meta.fields\<close>.
\<close>

record papa_result =
  papa_errors :: "string list"
  papa_data :: "jsobject list"
  papa_fields :: "string list option"

record 'ws workbook =
  SheetNames :: "string list"
  Sheets :: "(string \<times> 'ws) list"

text \<open>
  \<open>Papa_parse dynamicTyping text\<close> is \<^verbatim>\<open>Papa.parse\<close> with \<^verbatim>\<open>header: true\<close> and
  \<^verbatim>\<open>skipEmptyLines: true\<close>; \<open>sheet_to_json_rows\<close> is \<^verbatim>\<open>XLSX.utils.sheet_to_json\<close> with
  \<^verbatim>\<open>{header: 1, defval: ''}\<close> (one array of cells for each row) and \<open>sheet_to_json\<close> the
  same with no option (one object for each data row); both take the worksheet, which
  is \<^verbatim>\<open>undefined\<close> for a workbook without it.
\<close>

record 'ws libs =
  Papa_parse :: "bool \<Rightarrow> string \<Rightarrow> papa_result"
  XLSX_read :: "string \<Rightarrow> exn + 'ws workbook"
  sheet_to_json_rows :: "'ws option \<Rightarrow> jsval list list"
  sheet_to_json :: "'ws option \<Rightarrow> jsobject list"
  JSON_parse :: "string \<Rightarrow> exn + jsval"
  Date_parse_ok :: "string \<Rightarrow> bool"
  Number_toString :: "jsnum \<Rightarrow> string"

text \<open>\<^verbatim>\<open>workbook.SheetNames[0]\<close> and \<^verbatim>\<open>workbook.Sheets[sheetName]\<close>\<close>

definition first_sheet_name :: "'ws workbook \<Rightarrow> string option" where
  "first_sheet_name wb = (case SheetNames wb of [] \<Rightarrow> None | n # _ \<Rightarrow> Some n)"

definition first_sheet :: "'ws workbook \<Rightarrow> 'ws option" where
  "first_sheet wb =
     map_of (Sheets wb) (case first_sheet_name wb of None \<Rightarrow> ''undefined'' | Some n \<Rightarrow> n)"

text \<open>\<^verbatim>\<open>String(v)\<close> and \<^verbatim>\<open>parts.join(',')\<close>\<close>

fun join :: "string \<Rightarrow> string list \<Rightarrow> string" where
  "join sep [] = []"
| "join sep [x] = x"
| "join sep (x # y # ys) = x @ sep @ join sep (y # ys)"

fun String_of :: "(jsnum \<Rightarrow> string) \<Rightarrow> jsval \<Rightarrow> string" where
  "String_of nts JUndefined = ''undefined''"
| "String_of nts JNull = ''null''"
| "String_of nts (JBool b) = (if b then ''true'' else ''false'')"
| "String_of nts (JNum n) = nts n"
| "String_of nts (JStr s) = s"
| "String_of nts (JArr xs) =
     join '','' (map (\<lambda>x. if x = JUndefined \<or> x = JNull then [] else String_of nts x) xs)"
| "String_of nts (JObj kvs) = ''[object Object]''"

section \<open>FileUploadZone: processFile\<close>

datatype upload_status = StatusSuccess | StatusError

record UploadedFile =
  ufile :: File
  data :: "jsval list"
  headers :: "string list"
  status :: upload_status
  error :: "string option"

text \<open>\<^verbatim>\<open>jsonData[0].map(h => String(h).trim()).filter(Boolean)\<close>\<close>

definition xlsx_headers :: "(jsnum \<Rightarrow> string) \<Rightarrow> jsval list \<Rightarrow> string list" where
  "xlsx_headers nts first_row = filter (\<lambda>h. h \<noteq> []) (map (\<lambda>h. trim (String_of nts h)) first_row)"

text \<open>\<^verbatim>\<open>row[index]\<close>: \<^verbatim>\<open>undefined\<close> beyond the end of the array.\<close>

definition row_get :: "jsval list \<Rightarrow> nat \<Rightarrow> jsval" where
  "row_get row i = (if i < length row then row ! i else JUndefined)"

text \<open>
  \<^verbatim>\<open>headers.forEach((header, index) => { obj[header] = row[index] || ''; })\<close>
\<close>

definition xlsx_row_object :: "string list \<Rightarrow> jsval list \<Rightarrow> jsobject" where
  "xlsx_row_object hs row =
     fold (\<lambda>(header, index) obj. set_prop header (js_or (row_get row index) (JStr [])) obj)
       (zip hs [0..<length hs]) []"

text \<open>
  \<^verbatim>\<open>jsonData.slice(1).map(row => ...).filter(row => Object.values(row).some(v => v !== ''))\<close>
\<close>

definition xlsx_data :: "string list \<Rightarrow> jsval list list \<Rightarrow> jsobject list" where
  "xlsx_data hs rest =
     filter (\<lambda>row. list_ex (\<lambda>v. v \<noteq> JStr []) (map snd row)) (map (xlsx_row_object hs) rest)"

text \<open>The branch on the extension: the rows and the headers, or what is thrown.\<close>

definition processFile_parse :: "'ws libs \<Rightarrow> File \<Rightarrow> exn + (jsval list \<times> string list)" where
  "processFile_parse L f =
     (let extension = pop (split CHR ''.'' (toLowerCase (name f))) in
      if extension = Some ''csv'' then
        (case content f of
           Inl e \<Rightarrow> Inl e
         | Inr text \<Rightarrow>
             (let result = Papa_parse L True text in
              case papa_errors result of
                m # _ \<Rightarrow> Inl (Error (''CSV parsing error: '' @ m))
              | [] \<Rightarrow>
                  Inr (map JObj (papa_data result),
                       case papa_fields result of None \<Rightarrow> [] | Some fs \<Rightarrow> fs)))
      else if extension = Some ''xlsx'' \<or> extension = Some ''xls'' then
        (case content f of
           Inl e \<Rightarrow> Inl e
         | Inr arrayBuffer \<Rightarrow>
             (case XLSX_read L arrayBuffer of
                Inl e \<Rightarrow> Inl e
              | Inr workbook \<Rightarrow>
                  (case sheet_to_json_rows L (first_sheet workbook) of
                     [] \<Rightarrow> Inl (Error ''Excel file is empty'')
                   | first_row # rest \<Rightarrow>
                       (let hs = xlsx_headers (Number_toString L) first_row
                        in Inr (map JObj (xlsx_data hs rest), hs)))))
      else if extension = Some ''json'' then
        (case content f of
           Inl e \<Rightarrow> Inl e
         | Inr text \<Rightarrow>
             (case JSON_parse L text of
                Inl e \<Rightarrow> Inl e
              | Inr jsonData \<Rightarrow>
                  (case jsonData of
                     JArr d \<Rightarrow>
                       (case d of
                          [] \<Rightarrow> Inr (d, [])
                        | d0 # _ \<Rightarrow>
                            if typeof d0 = ''object'' then
                              (case Object_keys d0 of
                                 Inl e \<Rightarrow> Inl e
                               | Inr ks \<Rightarrow> Inr (d, ks))
                            else Inr (d, []))
                   | _ \<Rightarrow>
                       if typeof jsonData = ''object'' then
                         (case Object_keys jsonData of
                            Inl e \<Rightarrow> Inl e
                          | Inr ks \<Rightarrow> Inr ([jsonData], ks))
                       else Inl (Error ''JSON must be an array or object''))))
      else
        Inl (Error (''Unsupported file type: '' @
               (case extension of None \<Rightarrow> ''undefined'' | Some e \<Rightarrow> e))))"

text \<open>The two checks after the branch.\<close>

definition check_parsed :: "jsval list \<times> string list \<Rightarrow> exn + (jsval list \<times> string list)" where
  "check_parsed p =
     (if fst p = [] then Inl (Error ''File contains no data'')
      else if snd p = [] then Inl (Error ''Could not detect column headers'')
      else Inr p)"

definition processFile_try :: "'ws libs \<Rightarrow> File \<Rightarrow> exn + (jsval list \<times> string list)" where
  "processFile_try L f =
     (case processFile_parse L f of Inl e \<Rightarrow> Inl e | Inr p \<Rightarrow> check_parsed p)"

text \<open>The whole function: the \<^verbatim>\<open>try\<close> block and its \<^verbatim>\<open>catch\<close>.\<close>

definition processFile :: "'ws libs \<Rightarrow> File \<Rightarrow> UploadedFile" where
  "processFile L f =
     (case processFile_try L f of
        Inr p \<Rightarrow>
          \<lparr>ufile = f, data = fst p, headers = snd p, status = StatusSuccess, error = None\<rparr>
      | Inl e \<Rightarrow>
          \<lparr>ufile = f, data = [], headers = [], status = StatusError,
           error = Some (case e of Error m \<Rightarrow> m | Thrown _ \<Rightarrow> ''Unknown error'')\<rparr>)"

section \<open>EnterpriseUploadZone: parseFile\<close>

text \<open>
  The metadata object: \<open>filesize\<close> and \<open>filetype\<close> are its \<^verbatim>\<open>size\<close> and \<^verbatim>\<open>type\<close>;
  \<open>sheetName\<close> is set by the Excel branch only.  \<open>uploadedAt\<close> is
  \<^verbatim>\<open>new Date().toISOString()\<close>: the clock is the argument \<open>now\<close> of \<open>parseFile\<close>.
\<close>

record Metadata =
  filename :: string
  filesize :: nat
  filetype :: "string option"
  uploadedAt :: string
  sheetName :: "string option"
  columns :: "string list"
  rows :: nat
  detectedTypes :: "(string \<times> string) list"

text \<open>\<^verbatim>\<open>Object.keys(data[0] || {})\<close>: a truthy value is never null or undefined.\<close>

definition first_row_keys :: "jsval list \<Rightarrow> string list" where
  "first_row_keys d =
     (case d of
        [] \<Rightarrow> []
      | d0 # _ \<Rightarrow>
          if truthy d0 then (case Object_keys d0 of Inl _ \<Rightarrow> [] | Inr ks \<Rightarrow> ks) else [])"

text \<open>
  \<^verbatim>\<open>resolve({data, metadata: {...metadata, columns, rows, detectedTypes}})\<close>, or what
  \<open>analyzeDataTypes\<close> throws.
\<close>

definition resolve_parsed ::
  "(string \<Rightarrow> bool) \<Rightarrow> Metadata \<Rightarrow> jsval list \<Rightarrow> exn + (jsval list \<times> Metadata)" where
  "resolve_parsed date_ok metadata d =
     (case analyzeDataTypes date_ok d of
        Inl e \<Rightarrow> Inl e
      | Inr types \<Rightarrow>
          Inr (d, metadata\<lparr>columns := first_row_keys d, rows := length d,
                           detectedTypes := types\<rparr>))"

text \<open>The row filters of the CSV branch and of the Excel branch test the same values.\<close>

definition not_blank :: "jsobject \<Rightarrow> bool" where
  "not_blank row =
     list_ex (\<lambda>val. val \<noteq> JStr [] \<and> val \<noteq> JNull \<and> val \<noteq> JUndefined) (map snd row)"

definition parseFile :: "'ws libs \<Rightarrow> string \<Rightarrow> File \<Rightarrow> exn + (jsval list \<times> Metadata)" where
  "parseFile L now f =
     (let extension = map_option toLowerCase (pop (split CHR ''.'' (name f)));
          metadata = \<lparr>filename = name f, filesize = fsize f, filetype = extension,
                      uploadedAt = now, sheetName = None, columns = [], rows = 0,
                      detectedTypes = []\<rparr>
      in
      if extension = Some ''csv'' then
        (case content f of
           Inl e \<Rightarrow> Inl e
         | Inr text \<Rightarrow>
             (let results = Papa_parse L False text in
              case papa_errors results of
                m # _ \<Rightarrow> Inl (Error (''CSV parsing error: '' @ m))
              | [] \<Rightarrow>
                  (let cleanData = filter not_blank (papa_data results)
                   in resolve_parsed (Date_parse_ok L) metadata (map JObj cleanData))))
      else if extension = Some ''xlsx'' \<or> extension = Some ''xls'' then
        (case content f of
           Inl e \<Rightarrow> Inl (Error ''Failed to read Excel file'')
         | Inr d \<Rightarrow>
             (case XLSX_read L d of
                Inl e \<Rightarrow> Inl e
              | Inr workbook \<Rightarrow>
                  (let jsonData = sheet_to_json L (first_sheet workbook);
                       cleanData = filter not_blank jsonData
                   in resolve_parsed (Date_parse_ok L)
                        (metadata\<lparr>sheetName := first_sheet_name workbook\<rparr>)
                        (map JObj cleanData))))
      else if extension = Some ''json'' then
        (case content f of
           Inl e \<Rightarrow> Inl (Error ''Failed to read JSON file'')
         | Inr text \<Rightarrow>
             (case JSON_parse L text of
                Inl e \<Rightarrow> Inl (Error ''Invalid JSON format'')
              | Inr jsonData \<Rightarrow>
                  (let dataArray = (case jsonData of JArr xs \<Rightarrow> xs | _ \<Rightarrow> [jsonData])
                   in case resolve_parsed (Date_parse_ok L) metadata dataArray of
                        Inl e \<Rightarrow> Inl (Error ''Invalid JSON format'')
                      | Inr r \<Rightarrow> Inr r)))
      else Inl (Error ''Unsupported file format. Please use CSV, Excel, or JSON files.''))"

section \<open>Example files\<close>

text \<open>
  Libraries for the examples below: on the texts of the examples they answer as Papa
  Parse, SheetJS and the engine do, and with a fixed value on every other input.
\<close>

definition newline :: string where
  "newline = [CHR 0x0A]"

definition csv_with_blank_row :: string where
  "csv_with_blank_row = ''a,b'' @ newline @ ''1,2'' @ newline @ '','' @ newline @ ''3,4''"

definition csv_header_only :: string where
  "csv_header_only = ''a,b'' @ newline"

definition csv_padded_header :: string where
  "csv_padded_header = ''name ,age'' @ newline @ ''Ann,30''"

text \<open>
  The JSON texts \<^verbatim>\<open>{" id": 7}\<close>, whose key begins with a space, and
  \<^verbatim>\<open>[{"__proto__": 1, "age": 30}]\<close>: \<^verbatim>\<open>JSON.parse\<close> gives the object an own property
  named \<^verbatim>\<open>__proto__\<close>.
\<close>

definition json_padded_key :: string where
  "json_padded_key = ''{'' @ [CHR 0x22] @ '' id'' @ [CHR 0x22] @ '': 7}''"

definition json_proto_key :: string where
  "json_proto_key =
     ''[{'' @ [CHR 0x22] @ ''__proto__'' @ [CHR 0x22] @ '': 1, '' @
     [CHR 0x22] @ ''age'' @ [CHR 0x22] @ '': 30}]''"

definition example_papa :: "bool \<Rightarrow> string \<Rightarrow> papa_result" where
  "example_papa dynamicTyping text =
     (if text = csv_with_blank_row then
        \<lparr>papa_errors = [],
         papa_data =
           (if dynamicTyping then
              [[(''a'', JNum (Fin 1)), (''b'', JNum (Fin 2))],
               [(''a'', JNull), (''b'', JNull)],
               [(''a'', JNum (Fin 3)), (''b'', JNum (Fin 4))]]
            else
              [[(''a'', JStr ''1''), (''b'', JStr ''2'')],
               [(''a'', JStr []), (''b'', JStr [])],
               [(''a'', JStr ''3''), (''b'', JStr ''4'')]]),
         papa_fields = Some [''a'', ''b'']\<rparr>
      else if text = csv_header_only then
        \<lparr>papa_errors = [], papa_data = [], papa_fields = Some [''a'', ''b'']\<rparr>
      else if text = csv_padded_header then
        \<lparr>papa_errors = [],
         papa_data =
           [[(''name '', JStr ''Ann''),
             (''age'', if dynamicTyping then JNum (Fin 30) else JStr ''30'')]],
         papa_fields = Some [''name '', ''age'']\<rparr>
      else
        \<lparr>papa_errors = [''Unable to auto-detect delimiting character; defaulted to ,''],
         papa_data = [], papa_fields = None\<rparr>)"

text \<open>
  A workbook with one sheet, read as the grid
  \<^verbatim>\<open>[["a", "b"], [0, false], [1, 2], [0, "x"]]\<close>.
\<close>

definition example_libs :: "unit libs" where
  "example_libs =
     \<lparr>Papa_parse = example_papa,
      XLSX_read = (\<lambda>bytes.
        if bytes = ''book'' then Inr \<lparr>SheetNames = [''Sheet1''], Sheets = [(''Sheet1'', ())]\<rparr>
        else Inl (Error ''File is password-protected'')),
      sheet_to_json_rows = (\<lambda>ws.
        case ws of
          None \<Rightarrow> []
        | Some _ \<Rightarrow>
            [[JStr ''a'', JStr ''b''],
             [JNum (Fin 0), JBool False],
             [JNum (Fin 1), JNum (Fin 2)],
             [JNum (Fin 0), JStr ''x'']]),
      sheet_to_json = (\<lambda>ws.
        case ws of
          None \<Rightarrow> []
        | Some _ \<Rightarrow>
            [[(''a'', JNum (Fin 0)), (''b'', JBool False)],
             [(''a'', JNum (Fin 1)), (''b'', JNum (Fin 2))],
             [(''a'', JNum (Fin 0)), (''b'', JStr ''x'')]]),
      JSON_parse = (\<lambda>text.
        if text = ''5'' then Inr (JNum (Fin 5))
        else if text = ''[1, 2]'' then Inr (JArr [JNum (Fin 1), JNum (Fin 2)])
        else if text = json_padded_key then Inr (JObj [('' id'', JNum (Fin 7))])
        else if text = json_proto_key then
          Inr (JArr [JObj [(''__proto__'', JNum (Fin 1)), (''age'', JNum (Fin 30))]])
        else Inl (Error ''Unexpected end of JSON input'')),
      Date_parse_ok = (\<lambda>s. s = ''2024-01-01''),
      Number_toString = (\<lambda>n. if n = Fin 0 then ''0'' else ''NaN'')\<rparr>"

definition example_file :: "string \<Rightarrow> string \<Rightarrow> File" where
  "example_file n text = \<lparr>name = n, fsize = length text, content = Inr text\<rparr>"

section \<open>Properties of the type inference\<close>

lemma starts_with_single: "starts_with s [c] = (case s of [] \<Rightarrow> False | x # _ \<Rightarrow> x = c)"
  by (cases s) simp_all

lemma str_includes_single: "str_includes s [c] = (c \<in> set s)"
  by (induction s) (auto simp: starts_with_single)

lemma column_type_cases:
  "column_type date_ok v =
     (case v of
        JNum n \<Rightarrow> ''number''
      | JBool b \<Rightarrow> ''boolean''
      | JStr s \<Rightarrow>
          if CHR ''@'' \<in> set s then ''email'' else if date_ok s then ''date'' else ''string''
      | _ \<Rightarrow> ''string'')"
  by (cases v) (simp_all add: column_type_def str_includes_single)

subsection \<open>Assignments to an object\<close>

lemma set_insert_index: "set (insert_index n key v obj) = insert (key, v) (set obj)"
  by (induction obj) (auto split: option.splits)

lemma map_of_insert_index:
  "key \<notin> fst ` set obj \<Longrightarrow> map_of (insert_index n key v obj) = (map_of obj)(key \<mapsto> v)"
proof (induction obj)
  case Nil
  then show ?case by simp
next
  case (Cons p ps)
  obtain k w where p: "p = (k, w)" by (cases p)
  from Cons.prems have k: "k \<noteq> key" and fresh: "key \<notin> fst ` set ps" by (auto simp: p)
  have ih: "map_of (insert_index n key v ps) = (map_of ps)(key \<mapsto> v)"
    by (rule Cons.IH [OF fresh])
  show ?case
    using k by (auto simp: p ih fun_upd_twist split: option.splits)
qed

lemma set_update_subset: "set (AList.update k v al) \<subseteq> insert (k, v) (set al)"
  by (induction al) auto

lemma map_of_snoc_fresh:
  "key \<notin> fst ` set obj \<Longrightarrow> map_of (obj @ [(key, v)]) = (map_of obj)(key \<mapsto> v)"
  by (induction obj) (auto simp: fun_upd_twist)

lemma map_of_set_prop:
  "map_of (set_prop key v obj) =
     (if key = ''__proto__'' then map_of obj else (map_of obj)(key \<mapsto> v))"
proof (cases "key = ''__proto__''")
  case True
  then show ?thesis by (simp add: set_prop_def)
next
  case proto: False
  show ?thesis
  proof (cases "key \<in> fst ` set obj")
    case True
    then show ?thesis using proto by (simp add: set_prop_def update_conv')
  next
    case False
    then show ?thesis
      using proto map_of_snoc_fresh [OF False, of v] map_of_insert_index [OF False, of _ v]
      by (cases "array_index key") (simp_all add: set_prop_def)
  qed
qed

lemma set_set_prop: "set (set_prop key v obj) \<subseteq> insert (key, v) (set obj)"
  using set_update_subset [of key v obj]
  by (auto simp: set_prop_def set_insert_index split: option.splits)

lemma fold_set_prop_set:
  "set (fold (\<lambda>(key, x) obj. set_prop key (g x) obj) kvs acc) \<subseteq>
     set acc \<union> (\<lambda>(key, x). (key, g x)) ` set kvs"
proof (induction kvs arbitrary: acc)
  case Nil
  then show ?case by simp
next
  case (Cons kv kvs)
  obtain k x where kv: "kv = (k, x)" by (cases kv)
  have "set (fold (\<lambda>(key, x) obj. set_prop key (g x) obj) kvs (set_prop k (g x) acc)) \<subseteq>
      set (set_prop k (g x) acc) \<union> (\<lambda>(key, x). (key, g x)) ` set kvs"
    by (rule Cons.IH)
  with set_set_prop [of k "g x" acc] show ?case by (auto simp: kv)
qed

lemma fold_set_prop_untouched:
  "k \<notin> fst ` set kvs \<Longrightarrow>
   map_of (fold (\<lambda>(key, x) obj. set_prop key (g x) obj) kvs acc) k = map_of acc k"
proof (induction kvs arbitrary: acc)
  case Nil
  then show ?case by simp
next
  case (Cons kv kvs)
  obtain k' x where kv: "kv = (k', x)" by (cases kv)
  from Cons.prems have ne: "k' \<noteq> k" and rest: "k \<notin> fst ` set kvs" by (auto simp: kv)
  have "map_of (fold (\<lambda>(key, x) obj. set_prop key (g x) obj) kvs (set_prop k' (g x) acc)) k =
      map_of (set_prop k' (g x) acc) k"
    by (rule Cons.IH [OF rest])
  then show ?case using ne by (simp add: kv map_of_set_prop)
qed

lemma fold_set_prop_proto:
  "map_of (fold (\<lambda>(key, x) obj. set_prop key (g x) obj) kvs acc) ''__proto__'' =
     map_of acc ''__proto__''"
  by (induction kvs arbitrary: acc) (auto simp: map_of_set_prop)

lemma fold_set_prop_lookup:
  "distinct (map fst kvs) \<Longrightarrow> (k, x) \<in> set kvs \<Longrightarrow> k \<noteq> ''__proto__'' \<Longrightarrow>
   map_of (fold (\<lambda>(key, x) obj. set_prop key (g x) obj) kvs acc) k = Some (g x)"
proof (induction kvs arbitrary: acc)
  case Nil
  then show ?case by simp
next
  case (Cons kv kvs)
  obtain k' x' where kv: "kv = (k', x')" by (cases kv)
  show ?case
  proof (cases "(k, x) = kv")
    case True
    then have same: "k' = k" "x' = x" by (simp_all add: kv)
    from Cons.prems(1) have "k \<notin> fst ` set kvs" by (simp add: kv same)
    then have "map_of (fold (\<lambda>(key, x) obj. set_prop key (g x) obj) kvs (set_prop k (g x) acc)) k =
        map_of (set_prop k (g x) acc) k"
      by (rule fold_set_prop_untouched)
    then show ?thesis using Cons.prems(3) by (simp add: kv same map_of_set_prop)
  next
    case False
    with Cons.prems(2) have mem: "(k, x) \<in> set kvs" by auto
    from Cons.prems(1) have d: "distinct (map fst kvs)" by simp
    have "map_of (fold (\<lambda>(key, x) obj. set_prop key (g x) obj) kvs (set_prop k' (g x') acc)) k =
        Some (g x)"
      by (rule Cons.IH [OF d mem Cons.prems(3)])
    then show ?thesis by (simp add: kv)
  qed
qed

lemma fold_set_prop_keys:
  "fst ` set (fold (\<lambda>(key, x) obj. set_prop key (g x) obj) kvs acc) =
     fst ` set acc \<union> (fst ` set kvs - {''__proto__''})"
proof (induction kvs arbitrary: acc)
  case Nil
  then show ?case by simp
next
  case (Cons kv kvs)
  obtain k x where kv: "kv = (k, x)" by (cases kv)
  have keys: "fst ` set (set_prop k (g x) acc) =
      (if k = ''__proto__'' then fst ` set acc else insert k (fst ` set acc))"
    using arg_cong [OF map_of_set_prop [of k "g x" acc], of dom]
    by (simp add: dom_map_of_conv_image_fst)
  have "fst ` set (fold (\<lambda>(key, x) obj. set_prop key (g x) obj) kvs (set_prop k (g x) acc)) =
      fst ` set (set_prop k (g x) acc) \<union> (fst ` set kvs - {''__proto__''})"
    by (rule Cons.IH)
  then show ?case by (auto simp: kv keys)
qed

subsection \<open>The tags\<close>

text \<open>
  For a first row with the fields \<open>kvs\<close>, every field whose key is not \<^verbatim>\<open>__proto__\<close> gets
  one tag by a fixed precedence: \<open>number\<close> for a number; else \<open>boolean\<close> for a boolean;
  else, for a string, \<open>email\<close> when it contains the character \<open>@\<close>, else \<open>date\<close> when
  \<^verbatim>\<open>Date.parse\<close> accepts it, else \<open>string\<close>; and \<open>string\<close> for every other value (null,
  undefined, an array, an object).  The result has no other keys.
\<close>

lemma analyzeDataTypes_tags:
  assumes r: "Object_entries row = Inr kvs" and d: "distinct (map fst kvs)"
  shows "\<exists>types. analyzeDataTypes date_ok (row # rest) = Inr types \<and>
     fst ` set types = fst ` set kvs - {''__proto__''} \<and>
     map_of types ''__proto__'' = None \<and>
     (\<forall>(key, v) \<in> set kvs. key \<noteq> ''__proto__'' \<longrightarrow>
        map_of types key =
          Some (case v of
                  JNum n \<Rightarrow> ''number''
                | JBool b \<Rightarrow> ''boolean''
                | JStr s \<Rightarrow>
                    if CHR ''@'' \<in> set s then ''email''
                    else if date_ok s then ''date''
                    else ''string''
                | _ \<Rightarrow> ''string''))"
proof -
  let ?types = "fold (\<lambda>(key, v) types. set_prop key (column_type date_ok v) types) kvs []"
  have 1: "analyzeDataTypes date_ok (row # rest) = Inr ?types"
    by (simp add: analyzeDataTypes_def r)
  have 2: "fst ` set ?types = fst ` set kvs - {''__proto__''}"
    by (simp add: fold_set_prop_keys)
  have 3: "map_of ?types ''__proto__'' = None"
    by (simp add: fold_set_prop_proto)
  have 4: "\<forall>(key, v) \<in> set kvs. key \<noteq> ''__proto__'' \<longrightarrow>
      map_of ?types key = Some (column_type date_ok v)"
    using fold_set_prop_lookup [OF d, of _ _ "column_type date_ok" "[]"] by auto
  from 1 2 3 4 show ?thesis by (simp add: column_type_cases)
qed

text \<open>
  The first row \<^verbatim>\<open>{age: 30, active: true, email: "a@b.com", joined: "2024-01-01", note: "hello"}\<close>
  yields \<^verbatim>\<open>{age: number, active: boolean, email: email, joined: date, note: string}\<close>,
  where \<^verbatim>\<open>Date.parse\<close> accepts \<open>2024-01-01\<close> and rejects \<open>hello\<close>.
\<close>

lemma analyzeDataTypes_example:
  "date_ok ''2024-01-01'' \<Longrightarrow> \<not> date_ok ''hello'' \<Longrightarrow>
   analyzeDataTypes date_ok
     [JObj [(''age'', JNum (Fin 30)), (''active'', JBool True),
            (''email'', JStr ''a@b.com''), (''joined'', JStr ''2024-01-01''),
            (''note'', JStr ''hello'')]] =
     Inr [(''age'', ''number''), (''active'', ''boolean''), (''email'', ''email''),
          (''joined'', ''date''), (''note'', ''string'')]"
  by (simp add: analyzeDataTypes_def column_type_cases set_prop_def array_index_def
      is_digit_def)

text \<open>
  C1.  \<open>analyzeDataTypes\<close> is to give each field of the first row a tag, and it does
  not for a field named \<^verbatim>\<open>__proto__\<close>: \<^verbatim>\<open>types[key] = ...\<close> on the object \<^verbatim>\<open>{}\<close> calls the
  setter of \<^verbatim>\<open>Object.prototype\<close> and stores nothing.  For the first row
  \<^verbatim>\<open>{"__proto__": 1, "age": 30}\<close>, as \<^verbatim>\<open>JSON.parse\<close> builds it, the result is
  \<^verbatim>\<open>{age: number}\<close>: the numeric field \<^verbatim>\<open>__proto__\<close> has no tag.
\<close>

theorem analyzeDataTypes_drops_proto_field:
  "analyzeDataTypes date_ok [JObj [(''__proto__'', JNum (Fin 1)), (''age'', JNum (Fin 30))]] =
     Inr [(''age'', ''number'')]"
  by (simp add: analyzeDataTypes_def column_type_cases set_prop_def array_index_def
      is_digit_def)

text \<open>
  C2.  \<open>analyzeDataTypes\<close> reads the first row only: on a non-empty list of rows it
  returns what it returns on the list of the first row alone, whatever the later rows
  hold.
\<close>

theorem analyzeDataTypes_first_row_only:
  "analyzeDataTypes date_ok (row # later) = analyzeDataTypes date_ok [row]"
  by (simp add: analyzeDataTypes_def)

section \<open>Properties of processFile and parseFile\<close>

subsection \<open>The extension\<close>

lemma split_not_Nil: "split c s \<noteq> []"
  by (induction s) (auto split: list.splits)

lemma pop_split: "pop (split c s) = Some (last (split c s))"
  by (simp add: pop_def split_not_Nil)

lemma lower_char_dot: "(lower_char x = CHR ''.'') = (x = CHR ''.'')"
proof (cases "(65 \<le> (of_char x :: nat) \<and> (of_char x :: nat) \<le> 90) \<or>
    (192 \<le> (of_char x :: nat) \<and> (of_char x :: nat) \<le> 222 \<and> (of_char x :: nat) \<noteq> 215)")
  case True
  have h: "(of_char (char_of (of_char x + 32 :: nat)) :: nat) = of_char x + 32"
    using True by auto
  have "char_of (of_char x + 32 :: nat) \<noteq> CHR ''.''"
  proof
    assume "char_of (of_char x + 32 :: nat) = CHR ''.''"
    then have "(of_char (char_of (of_char x + 32 :: nat)) :: nat) = of_char CHR ''.''"
      by (rule arg_cong)
    with h have "(of_char x :: nat) + 32 = 46" by simp
    with True show False by auto
  qed
  moreover have "x \<noteq> CHR ''.''" using True by auto
  ultimately show ?thesis using True by (simp add: lower_char_def)
next
  case False
  then show ?thesis by (auto simp: lower_char_def Let_def)
qed

lemma split_toLowerCase:
  "split CHR ''.'' (toLowerCase s) = map toLowerCase (split CHR ''.'' s)"
proof (induction s)
  case Nil
  then show ?case by (simp add: toLowerCase_def)
next
  case (Cons x xs)
  then show ?case
    using split_not_Nil [of "CHR ''.''" xs]
    by (cases "split CHR ''.'' xs") (auto simp: toLowerCase_def lower_char_dot)
qed

lemma extension_toLowerCase:
  "map_option toLowerCase (pop (split CHR ''.'' s)) = pop (split CHR ''.'' (toLowerCase s))"
  by (simp add: pop_def split_toLowerCase last_map split_not_Nil)

text \<open>
  C6 (amended).  A file whose extension (the lower-case text after the last dot of its
  name) is none of \<open>csv\<close>, \<open>xlsx\<close>, \<open>xls\<close>, \<open>json\<close> fails at once, whatever its
  contents and whatever the libraries would make of them: nothing is read or parsed.
  \<open>processFile\<close> reports the message \<open>Unsupported file type: \<close> followed by the
  extension, with no rows and no headers; \<open>parseFile\<close> rejects with the fixed message
  \<open>Unsupported file format. Please use CSV, Excel, or JSON files.\<close>  Neither message
  lists the accepted extensions.
\<close>

theorem unsupported_extension:
  "pop (split CHR ''.'' (toLowerCase (name f))) = Some ext \<and>
   ext \<noteq> ''csv'' \<and> ext \<noteq> ''xlsx'' \<and> ext \<noteq> ''xls'' \<and> ext \<noteq> ''json'' \<longrightarrow>
     processFile L f =
       \<lparr>ufile = f, data = [], headers = [], status = StatusError,
        error = Some (''Unsupported file type: '' @ ext)\<rparr> \<and>
     parseFile L now f =
       Inl (Error ''Unsupported file format. Please use CSV, Excel, or JSON files.'')"
proof (intro impI)
  assume a: "pop (split CHR ''.'' (toLowerCase (name f))) = Some ext \<and>
   ext \<noteq> ''csv'' \<and> ext \<noteq> ''xlsx'' \<and> ext \<noteq> ''xls'' \<and> ext \<noteq> ''json''"
  then have e: "pop (split CHR ''.'' (toLowerCase (name f))) = Some ext" by simp
  have e': "map_option toLowerCase (pop (split CHR ''.'' (name f))) = Some ext"
    using e by (simp only: extension_toLowerCase)
  have "processFile_parse L f = Inl (Error (''Unsupported file type: '' @ ext))"
    using a by (simp add: processFile_parse_def e)
  then have p: "processFile L f =
       \<lparr>ufile = f, data = [], headers = [], status = StatusError,
        error = Some (''Unsupported file type: '' @ ext)\<rparr>"
    by (simp add: processFile_def processFile_try_def)
  have q: "parseFile L now f =
       Inl (Error ''Unsupported file format. Please use CSV, Excel, or JSON files.'')"
    using a unfolding parseFile_def e' Let_def by simp
  from p q show "processFile L f =
       \<lparr>ufile = f, data = [], headers = [], status = StatusError,
        error = Some (''Unsupported file type: '' @ ext)\<rparr> \<and>
     parseFile L now f =
       Inl (Error ''Unsupported file format. Please use CSV, Excel, or JSON files.'')"
    by simp
qed

lemma ext_notes: "pop (split CHR ''.'' (toLowerCase ''notes.txt'')) = Some ''txt''"
  by (simp add: pop_def toLowerCase_def lower_char_def)

theorem unsupported_extension_witness:
  "processFile example_libs (example_file ''notes.txt'' ''hello'') =
       \<lparr>ufile = example_file ''notes.txt'' ''hello'', data = [], headers = [],
        status = StatusError, error = Some ''Unsupported file type: txt''\<rparr> \<and>
     parseFile example_libs ''2026-11-02T09:00:00.000Z'' (example_file ''notes.txt'' ''hello'') =
       Inl (Error ''Unsupported file format. Please use CSV, Excel, or JSON files.'')"
  using unsupported_extension [of "example_file ''notes.txt'' ''hello''" "''txt''" example_libs
      "''2026-11-02T09:00:00.000Z''"] ext_notes
  by (simp add: example_file_def)

text \<open>
  The message of \<open>processFile\<close> for \<open>notes.txt\<close> names the rejected extension and none
  of the accepted ones.
\<close>

theorem unsupported_message_counterexample:
  "error (processFile example_libs (example_file ''notes.txt'' ''hello'')) =
     Some ''Unsupported file type: txt'' \<and>
   \<not> str_includes ''Unsupported file type: txt'' ''csv'' \<and>
   \<not> str_includes ''Unsupported file type: txt'' ''xlsx'' \<and>
   \<not> str_includes ''Unsupported file type: txt'' ''xls'' \<and>
   \<not> str_includes ''Unsupported file type: txt'' ''json''"
  by (simp add: processFile_def processFile_try_def processFile_parse_def example_file_def
      pop_def toLowerCase_def lower_char_def)

subsection \<open>Failures\<close>



subsection \<open>The branches of parseFile\<close>

lemma parseFile_csv:
  assumes e: "map_option toLowerCase (pop (split CHR ''.'' (name f))) = Some ''csv''"
  shows "parseFile L now f =
     (case content f of
        Inl e \<Rightarrow> Inl e
      | Inr text \<Rightarrow>
          (case papa_errors (Papa_parse L False text) of
             m # _ \<Rightarrow> Inl (Error (''CSV parsing error: '' @ m))
           | [] \<Rightarrow>
               resolve_parsed (Date_parse_ok L)
                 \<lparr>filename = name f, filesize = fsize f, filetype = Some ''csv'',
                  uploadedAt = now, sheetName = None, columns = [], rows = 0,
                  detectedTypes = []\<rparr>
                 (map JObj (filter not_blank (papa_data (Papa_parse L False text))))))"
  unfolding parseFile_def Let_def e by simp

lemma parseFile_excel:
  assumes e: "map_option toLowerCase (pop (split CHR ''.'' (name f))) = Some ext"
    and x: "ext = ''xlsx'' \<or> ext = ''xls''"
  shows "parseFile L now f =
     (case content f of
        Inl e \<Rightarrow> Inl (Error ''Failed to read Excel file'')
      | Inr d \<Rightarrow>
          (case XLSX_read L d of
             Inl e \<Rightarrow> Inl e
           | Inr workbook \<Rightarrow>
               resolve_parsed (Date_parse_ok L)
                 \<lparr>filename = name f, filesize = fsize f, filetype = Some ext,
                  uploadedAt = now, sheetName = first_sheet_name workbook, columns = [],
                  rows = 0, detectedTypes = []\<rparr>
                 (map JObj (filter not_blank (sheet_to_json L (first_sheet workbook))))))"
  unfolding parseFile_def Let_def e using x by (auto split: sum.splits)

lemma parseFile_json:
  assumes e: "map_option toLowerCase (pop (split CHR ''.'' (name f))) = Some ''json''"
  shows "parseFile L now f =
     (case content f of
        Inl e \<Rightarrow> Inl (Error ''Failed to read JSON file'')
      | Inr text \<Rightarrow>
          (case JSON_parse L text of
             Inl e \<Rightarrow> Inl (Error ''Invalid JSON format'')
           | Inr jsonData \<Rightarrow>
               (case resolve_parsed (Date_parse_ok L)
                       \<lparr>filename = name f, filesize = fsize f, filetype = Some ''json'',
                        uploadedAt = now, sheetName = None, columns = [], rows = 0,
                        detectedTypes = []\<rparr>
                       (case jsonData of JArr xs \<Rightarrow> xs | _ \<Rightarrow> [jsonData]) of
                  Inl e \<Rightarrow> Inl (Error ''Invalid JSON format'')
                | Inr r \<Rightarrow> Inr r)))"
  unfolding parseFile_def Let_def e by simp

lemma parseFile_other:
  assumes e: "map_option toLowerCase (pop (split CHR ''.'' (name f))) = ext"
    and x: "ext \<noteq> Some ''csv''" "ext \<noteq> Some ''xlsx''" "ext \<noteq> Some ''xls''"
      "ext \<noteq> Some ''json''"
  shows "parseFile L now f =
     Inl (Error ''Unsupported file format. Please use CSV, Excel, or JSON files.'')"
  unfolding parseFile_def Let_def e using x by simp


lemma parseFile_clock:
  assumes n: "name f = name g" and c: "content f = content g"
  shows "map_sum id (\<lambda>(d, m). (d, columns m, rows m, detectedTypes m)) (parseFile L t1 f) =
     map_sum id (\<lambda>(d, m). (d, columns m, rows m, detectedTypes m)) (parseFile L t2 g)"
proof -
  let ?E = "map_option toLowerCase (pop (split CHR ''.'' (name f)))"
  have g: "map_option toLowerCase (pop (split CHR ''.'' (name g))) = ?E"
    by (simp only: n)
  consider (csv) "?E = Some ''csv''" | (xlsx) "?E = Some ''xlsx''" | (xls) "?E = Some ''xls''"
    | (json) "?E = Some ''json''"
    | (other) "?E \<noteq> Some ''csv''" "?E \<noteq> Some ''xlsx''" "?E \<noteq> Some ''xls''"
        "?E \<noteq> Some ''json''"
    by blast
  then show ?thesis
  proof cases
    case csv
    show ?thesis
      unfolding parseFile_csv [OF csv] parseFile_csv [OF csv [folded g]] c
      by (simp add: resolve_parsed_def split: sum.splits list.splits)
  next
    case xlsx
    show ?thesis
      unfolding parseFile_excel [OF xlsx disjI1 [OF refl]]
        parseFile_excel [OF xlsx [folded g] disjI1 [OF refl]] c
      by (simp add: resolve_parsed_def split: sum.splits list.splits)
  next
    case xls
    show ?thesis
      unfolding parseFile_excel [OF xls disjI2 [OF refl]]
        parseFile_excel [OF xls [folded g] disjI2 [OF refl]] c
      by (simp add: resolve_parsed_def split: sum.splits list.splits)
  next
    case json
    show ?thesis
      unfolding parseFile_json [OF json] parseFile_json [OF json [folded g]] c
      by (simp add: resolve_parsed_def split: sum.splits list.splits)
  next
    case other
    show ?thesis
      unfolding parseFile_other [OF refl other] parseFile_other [OF g other]
      by simp
  qed
qed

subsection \<open>The branches of processFile\<close>

lemma processFile_parse_csv:
  assumes e: "pop (split CHR ''.'' (toLowerCase (name f))) = Some ''csv''"
  shows "processFile_parse L f =
     (case content f of
        Inl e \<Rightarrow> Inl e
      | Inr text \<Rightarrow>
          (case papa_errors (Papa_parse L True text) of
             m # _ \<Rightarrow> Inl (Error (''CSV parsing error: '' @ m))
           | [] \<Rightarrow>
               Inr (map JObj (papa_data (Papa_parse L True text)),
                    case papa_fields (Papa_parse L True text) of None \<Rightarrow> [] | Some fs \<Rightarrow> fs)))"
  unfolding processFile_parse_def Let_def e by simp

lemma processFile_parse_excel:
  assumes e: "pop (split CHR ''.'' (toLowerCase (name f))) = Some ext"
    and x: "ext = ''xlsx'' \<or> ext = ''xls''"
  shows "processFile_parse L f =
     (case content f of
        Inl e \<Rightarrow> Inl e
      | Inr arrayBuffer \<Rightarrow>
          (case XLSX_read L arrayBuffer of
             Inl e \<Rightarrow> Inl e
           | Inr workbook \<Rightarrow>
               (case sheet_to_json_rows L (first_sheet workbook) of
                  [] \<Rightarrow> Inl (Error ''Excel file is empty'')
                | first_row # rest \<Rightarrow>
                    Inr (map JObj (xlsx_data (xlsx_headers (Number_toString L) first_row) rest),
                         xlsx_headers (Number_toString L) first_row))))"
  unfolding processFile_parse_def Let_def e using x by (auto split: sum.splits list.splits)

lemma processFile_parse_json:
  assumes e: "pop (split CHR ''.'' (toLowerCase (name f))) = Some ''json''"
    and c: "content f = Inr text" and j: "JSON_parse L text = Inr jsonData"
  shows "processFile_parse L f =
     (case jsonData of
        JArr d \<Rightarrow>
          (case d of
             [] \<Rightarrow> Inr (d, [])
           | d0 # _ \<Rightarrow>
               if typeof d0 = ''object'' then
                 (case Object_keys d0 of Inl e \<Rightarrow> Inl e | Inr ks \<Rightarrow> Inr (d, ks))
               else Inr (d, []))
      | _ \<Rightarrow>
          if typeof jsonData = ''object'' then
            (case Object_keys jsonData of Inl e \<Rightarrow> Inl e | Inr ks \<Rightarrow> Inr ([jsonData], ks))
          else Inl (Error ''JSON must be an array or object''))"
  unfolding processFile_parse_def Let_def e c by (simp add: j)

lemma processFile_success:
  assumes "status (processFile L f) = StatusSuccess"
  shows "processFile_parse L f = Inr (data (processFile L f), headers (processFile L f)) \<and>
    data (processFile L f) \<noteq> [] \<and> headers (processFile L f) \<noteq> []"
  using assms
  by (cases "processFile_parse L f")
     (auto simp: processFile_def processFile_try_def check_parsed_def split: if_splits)

lemma processFile_of_parse:
  "processFile_parse L f = Inr (d, hs) \<Longrightarrow>
   processFile L f =
     (if d = [] then
        \<lparr>ufile = f, data = [], headers = [], status = StatusError,
         error = Some ''File contains no data''\<rparr>
      else if hs = [] then
        \<lparr>ufile = f, data = [], headers = [], status = StatusError,
         error = Some ''Could not detect column headers''\<rparr>
      else \<lparr>ufile = f, data = d, headers = hs, status = StatusSuccess, error = None\<rparr>)"
  by (simp add: processFile_def processFile_try_def check_parsed_def)

lemma processFile_parse_cong:
  assumes "name f = name g" and "content f = content g"
  shows "processFile_parse L f = processFile_parse L g"
  by (simp only: processFile_parse_def assms)

subsection \<open>Running the examples\<close>

lemmas run_simps =
  processFile_def processFile_try_def processFile_parse_def check_parsed_def parseFile_def
  resolve_parsed_def first_row_keys_def not_blank_def analyzeDataTypes_def column_type_def
  Object_keys_def set_prop_def array_index_def is_digit_def decimal_def
  json_padded_key_def json_proto_key_def
  example_file_def example_libs_def example_papa_def csv_padded_header_def
  csv_with_blank_row_def csv_header_only_def newline_def
  pop_def toLowerCase_def lower_char_def
  first_sheet_def first_sheet_name_def xlsx_headers_def xlsx_data_def
  xlsx_row_object_def trim_def is_space_def row_get_def js_or_def

subsection \<open>Headers\<close>

lemma processFile_parse_other:
  assumes "pop (split CHR ''.'' (toLowerCase (name f))) \<noteq> Some ''csv''"
    "pop (split CHR ''.'' (toLowerCase (name f))) \<noteq> Some ''xlsx''"
    "pop (split CHR ''.'' (toLowerCase (name f))) \<noteq> Some ''xls''"
    "pop (split CHR ''.'' (toLowerCase (name f))) \<noteq> Some ''json''"
  shows "\<exists>e. processFile_parse L f = Inl e"
  using assms by (simp add: processFile_parse_def Let_def)

lemma processFile_parse_json_success:
  assumes e: "pop (split CHR ''.'' (toLowerCase (name f))) = Some ''json''"
    and p: "processFile_parse L f = Inr (d, hs)" and hs: "hs \<noteq> []"
  shows "\<exists>text jsonData. content f = Inr text \<and> JSON_parse L text = Inr jsonData \<and>
     ((\<exists>d0 rest. jsonData = JArr (d0 # rest) \<and> typeof d0 = ''object'' \<and>
         Object_keys d0 = Inr hs) \<or>
      (typeof jsonData = ''object'' \<and> (\<forall>xs. jsonData \<noteq> JArr xs) \<and>
         Object_keys jsonData = Inr hs))"
proof -
  obtain contents where c: "content f = Inr contents"
    using p unfolding processFile_parse_def Let_def e
    by (cases "content f") simp_all
  obtain jsonData where j: "JSON_parse L contents = Inr jsonData"
    using p unfolding processFile_parse_def Let_def e c
    by (cases "JSON_parse L contents") simp_all
  have "(\<exists>d0 rest. jsonData = JArr (d0 # rest) \<and> typeof d0 = ''object'' \<and>
         Object_keys d0 = Inr hs) \<or>
      (typeof jsonData = ''object'' \<and> (\<forall>xs. jsonData \<noteq> JArr xs) \<and>
         Object_keys jsonData = Inr hs)"
    using p hs unfolding processFile_parse_json [OF e c j]
    by (cases jsonData) (auto split: list.splits sum.splits if_splits)
  with c j show ?thesis by blast
qed

text \<open>
  C7 (amended).  Every file that \<open>processFile\<close> parses successfully has one of the
  extensions \<open>csv\<close>, \<open>xlsx\<close>, \<open>xls\<close>, \<open>json\<close>.  For XLSX/XLS the header list is the
  literal first row of cells of the first sheet, each cell converted to a string and
  trimmed of surrounding white space, the empty ones discarded.  For CSV it is exactly
  the list of field names the CSV parser reports (\<^verbatim>\<open>meta.fields\<close>), and for JSON exactly the
  list of keys of the first row (the first element of the array, or the object that is
  the root) as \<^verbatim>\<open>Object.keys\<close> gives it: \<open>processFile\<close> neither trims nor filters these.
\<close>

theorem processFile_headers:
  "status (processFile L f) = StatusSuccess \<longrightarrow>
     (pop (split CHR ''.'' (toLowerCase (name f))) = Some ''csv'' \<or>
      pop (split CHR ''.'' (toLowerCase (name f))) = Some ''xlsx'' \<or>
      pop (split CHR ''.'' (toLowerCase (name f))) = Some ''xls'' \<or>
      pop (split CHR ''.'' (toLowerCase (name f))) = Some ''json'') \<and>
     (pop (split CHR ''.'' (toLowerCase (name f))) = Some ''csv'' \<longrightarrow>
        (\<exists>text. content f = Inr text \<and>
           papa_fields (Papa_parse L True text) = Some (headers (processFile L f)))) \<and>
     (pop (split CHR ''.'' (toLowerCase (name f))) = Some ''xlsx'' \<or>
      pop (split CHR ''.'' (toLowerCase (name f))) = Some ''xls'' \<longrightarrow>
        (\<exists>bytes workbook first_row rest.
           content f = Inr bytes \<and> XLSX_read L bytes = Inr workbook \<and>
           sheet_to_json_rows L (first_sheet workbook) = first_row # rest \<and>
           headers (processFile L f) =
             filter (\<lambda>h. h \<noteq> [])
               (map (\<lambda>h. trim (String_of (Number_toString L) h)) first_row))) \<and>
     (pop (split CHR ''.'' (toLowerCase (name f))) = Some ''json'' \<longrightarrow>
        (\<exists>text jsonData.
           content f = Inr text \<and> JSON_parse L text = Inr jsonData \<and>
           ((\<exists>d0 rest. jsonData = JArr (d0 # rest) \<and> typeof d0 = ''object'' \<and>
               Object_keys d0 = Inr (headers (processFile L f))) \<or>
            (typeof jsonData = ''object'' \<and> (\<forall>xs. jsonData \<noteq> JArr xs) \<and>
               Object_keys jsonData = Inr (headers (processFile L f))))))"
proof (intro impI conjI)
  assume s: "status (processFile L f) = StatusSuccess"
  note p = processFile_success [OF s]
  show "pop (split CHR ''.'' (toLowerCase (name f))) = Some ''csv'' \<or>
      pop (split CHR ''.'' (toLowerCase (name f))) = Some ''xlsx'' \<or>
      pop (split CHR ''.'' (toLowerCase (name f))) = Some ''xls'' \<or>
      pop (split CHR ''.'' (toLowerCase (name f))) = Some ''json''"
    using p processFile_parse_other [of f L] by auto
next
  assume s: "status (processFile L f) = StatusSuccess"
    and e: "pop (split CHR ''.'' (toLowerCase (name f))) = Some ''csv''"
  note p = processFile_success [OF s]
  from p show "\<exists>text. content f = Inr text \<and>
           papa_fields (Papa_parse L True text) = Some (headers (processFile L f))"
    unfolding processFile_parse_csv [OF e]
    by (auto split: sum.splits list.splits option.splits)
next
  assume s: "status (processFile L f) = StatusSuccess"
    and e: "pop (split CHR ''.'' (toLowerCase (name f))) = Some ''xlsx'' \<or>
      pop (split CHR ''.'' (toLowerCase (name f))) = Some ''xls''"
  note p = processFile_success [OF s]
  from e obtain ext where e': "pop (split CHR ''.'' (toLowerCase (name f))) = Some ext"
    and x: "ext = ''xlsx'' \<or> ext = ''xls''" by blast
  from p show "\<exists>bytes workbook first_row rest.
           content f = Inr bytes \<and> XLSX_read L bytes = Inr workbook \<and>
           sheet_to_json_rows L (first_sheet workbook) = first_row # rest \<and>
           headers (processFile L f) =
             filter (\<lambda>h. h \<noteq> [])
               (map (\<lambda>h. trim (String_of (Number_toString L) h)) first_row)"
    unfolding processFile_parse_excel [OF e' x]
    by (auto simp: xlsx_headers_def split: sum.splits list.splits)
next
  assume s: "status (processFile L f) = StatusSuccess"
    and e: "pop (split CHR ''.'' (toLowerCase (name f))) = Some ''json''"
  note p = processFile_success [OF s]
  from p have 1: "processFile_parse L f = Inr (data (processFile L f), headers (processFile L f))"
    and 2: "headers (processFile L f) \<noteq> []" by simp_all
  show "\<exists>text jsonData.
           content f = Inr text \<and> JSON_parse L text = Inr jsonData \<and>
           ((\<exists>d0 rest. jsonData = JArr (d0 # rest) \<and> typeof d0 = ''object'' \<and>
               Object_keys d0 = Inr (headers (processFile L f))) \<or>
            (typeof jsonData = ''object'' \<and> (\<forall>xs. jsonData \<noteq> JArr xs) \<and>
               Object_keys jsonData = Inr (headers (processFile L f))))"
    by (rule processFile_parse_json_success [OF e 1 2])
qed

theorem processFile_headers_witness:
  "papa_fields (Papa_parse example_libs True csv_padded_header) =
     Some (headers (processFile example_libs (example_file ''people.csv'' csv_padded_header))) \<and>
   headers (processFile example_libs (example_file ''people.csv'' csv_padded_header)) =
     [''name '', ''age''] \<and>
   headers (processFile example_libs (example_file ''book.xlsx'' ''book'')) = [''a'', ''b''] \<and>
   Object_keys (JObj [('' id'', JNum (Fin 7))]) =
     Inr (headers (processFile example_libs (example_file ''item.json'' json_padded_key))) \<and>
   headers (processFile example_libs (example_file ''item.json'' json_padded_key)) = ['' id'']"
  using processFile_headers [of example_libs "example_file ''people.csv'' csv_padded_header"]
    processFile_headers [of example_libs "example_file ''book.xlsx'' ''book''"]
    processFile_headers [of example_libs "example_file ''item.json'' json_padded_key"]
  by (simp add: run_simps)

text \<open>
  A CSV file whose first line is \<open>name ,age\<close>: the parser reports the field names
  \<open>name \<close> (with its trailing space) and \<open>age\<close>, and \<open>processFile\<close> returns them
  untrimmed.  A JSON file that holds \<^verbatim>\<open>{" id": 7}\<close>: the header is the key with its
  leading space.
\<close>

theorem csv_headers_not_trimmed_counterexample:
  "status (processFile example_libs (example_file ''people.csv'' csv_padded_header)) =
     StatusSuccess \<and>
   papa_fields (Papa_parse example_libs True csv_padded_header) = Some [''name '', ''age''] \<and>
   headers (processFile example_libs (example_file ''people.csv'' csv_padded_header)) \<noteq>
     filter (\<lambda>h. h \<noteq> []) (map trim [''name '', ''age'']) \<and>
   status (processFile example_libs (example_file ''item.json'' json_padded_key)) =
     StatusSuccess \<and>
   JSON_parse example_libs json_padded_key = Inr (JObj [('' id'', JNum (Fin 7))]) \<and>
   headers (processFile example_libs (example_file ''item.json'' json_padded_key)) \<noteq>
     filter (\<lambda>h. h \<noteq> []) (map trim ['' id''])"
  by (simp add: run_simps)

subsection \<open>Empty results\<close>

text \<open>
  \<open>processFile\<close> fails with \<open>File contains no data\<close> when its branch returns no row,
  and with \<open>Could not detect column headers\<close> when it returns rows and no header.
\<close>

lemma processFile_empty_result_checks:
  "(processFile_parse L f = Inr ([], hs) \<longrightarrow>
      processFile L f =
        \<lparr>ufile = f, data = [], headers = [], status = StatusError,
         error = Some ''File contains no data''\<rparr>) \<and>
   (processFile_parse L f = Inr (d, []) \<and> d \<noteq> [] \<longrightarrow>
      processFile L f =
        \<lparr>ufile = f, data = [], headers = [], status = StatusError,
         error = Some ''Could not detect column headers''\<rparr>)"
  by (simp add: processFile_of_parse)

text \<open>On a CSV file with a header line and no data row it fails with the first error.\<close>

lemma processFile_header_only_csv:
  "processFile example_libs (example_file ''empty.csv'' csv_header_only) =
     \<lparr>ufile = example_file ''empty.csv'' csv_header_only, data = [], headers = [],
      status = StatusError, error = Some ''File contains no data''\<rparr>"
  by (simp add: run_simps)

text \<open>
  \<open>parseFile\<close> has no such check: whenever its CSV branch is left with no row, it
  resolves with the empty table.
\<close>

lemma parseFile_csv_no_rows:
  assumes e: "map_option toLowerCase (pop (split CHR ''.'' (name f))) = Some ''csv''"
    and c: "content f = Inr contents"
    and p: "papa_errors (Papa_parse L False contents) = []"
    and r: "filter not_blank (papa_data (Papa_parse L False contents)) = []"
  shows "parseFile L now f =
     Inr ([], \<lparr>filename = name f, filesize = fsize f, filetype = Some ''csv'',
               uploadedAt = now, sheetName = None, columns = [], rows = 0,
               detectedTypes = []\<rparr>)"
  by (simp add: parseFile_csv [OF e] c p r resolve_parsed_def analyzeDataTypes_def
      first_row_keys_def)

text \<open>
  C4.  A failure with a no-data error is due whenever no row remains, and \<open>parseFile\<close>
  does not fail: on the CSV file that holds the header line \<open>a,b\<close> and no data row it
  succeeds with the empty table, no columns, zero rows and no detected types.
\<close>

theorem parseFile_header_only_csv_succeeds:
  "parseFile example_libs ''2026-11-02T09:00:00.000Z'' (example_file ''empty.csv'' csv_header_only) =
     Inr ([], \<lparr>filename = ''empty.csv'', filesize = 4, filetype = Some ''csv'',
               uploadedAt = ''2026-11-02T09:00:00.000Z'', sheetName = None, columns = [],
               rows = 0, detectedTypes = []\<rparr>)"
  by (simp add: run_simps)

subsection \<open>Falsy cells of a worksheet\<close>

lemma row_get_falsy: "\<forall>v \<in> set row. \<not> truthy v \<Longrightarrow> \<not> truthy (row_get row i)"
  by (simp add: row_get_def)

text \<open>Every property of a row object is a header with the value of one of its cells.\<close>

lemma xlsx_row_object_props:
  assumes "(h, v) \<in> set (xlsx_row_object hs row)"
  shows "\<exists>i<length hs. hs ! i = h \<and> v = js_or (row_get row i) (JStr [])"
proof -
  have "set (xlsx_row_object hs row) \<subseteq>
      (\<lambda>(key, i). (key, js_or (row_get row i) (JStr []))) ` set (zip hs [0..<length hs])"
    unfolding xlsx_row_object_def
    using fold_set_prop_set [of "\<lambda>i. js_or (row_get row i) (JStr [])" "zip hs [0..<length hs]" "[]"]
    by simp
  with assms obtain i where z: "(h, i) \<in> set (zip hs [0..<length hs])"
    and v: "v = js_or (row_get row i) (JStr [])" by auto
  from z obtain n where "n < length hs" "hs ! n = h" "[0..<length hs] ! n = i"
    by (auto simp: in_set_zip)
  then have "i < length hs" "hs ! i = h" by simp_all
  with v show ?thesis by blast
qed

lemma xlsx_row_object_lookup:
  assumes d: "distinct hs" and i: "i < length hs" and p: "hs ! i \<noteq> ''__proto__''"
  shows "map_of (xlsx_row_object hs row) (hs ! i) = Some (js_or (row_get row i) (JStr []))"
  unfolding xlsx_row_object_def
proof (rule fold_set_prop_lookup)
  show "distinct (map fst (zip hs [0..<length hs]))" using d by simp
  show "(hs ! i, i) \<in> set (zip hs [0..<length hs])"
    using i by (auto simp: in_set_zip)
  show "hs ! i \<noteq> ''__proto__''" by (rule p)
qed

lemma xlsx_row_object_blank:
  assumes "\<forall>v \<in> set row. \<not> truthy v"
  shows "\<not> list_ex (\<lambda>v. v \<noteq> JStr []) (map snd (xlsx_row_object hs row))"
proof -
  have "v = JStr []" if "(h, v) \<in> set (xlsx_row_object hs row)" for h v
    using xlsx_row_object_props [OF that] row_get_falsy [OF assms] by (auto simp: js_or_def)
  then show ?thesis by (auto simp: list_ex_iff)
qed

lemma xlsx_data_drop:
  assumes "\<forall>v \<in> set row. \<not> truthy v"
  shows "xlsx_data hs (before @ row # after) = xlsx_data hs (before @ after)"
  using xlsx_row_object_blank [OF assms, of hs] by (simp add: xlsx_data_def)

lemma xlsx_data_member:
  assumes "obj \<in> set (xlsx_data hs rest)"
  shows "\<exists>row \<in> set rest. obj = xlsx_row_object hs row \<and> (\<exists>i<length hs. truthy (row_get row i))"
proof -
  from assms obtain row where r: "row \<in> set rest" and o: "obj = xlsx_row_object hs row"
    and ex: "list_ex (\<lambda>v. v \<noteq> JStr []) (map snd obj)"
    by (auto simp: xlsx_data_def)
  from ex obtain h v where m: "(h, v) \<in> set obj" and v: "v \<noteq> JStr []"
    by (auto simp: list_ex_iff)
  from xlsx_row_object_props [OF m [unfolded o]] obtain i where
    i: "i < length hs" and "v = js_or (row_get row i) (JStr [])" by blast
  with v have "truthy (row_get row i)" by (auto simp: js_or_def split: if_splits)
  with r o i show ?thesis by blast
qed

text \<open>
  C10.  For an Excel file, with \<open>hs\<close> the headers of its first row and \<open>rest\<close> its data
  rows: every row that \<open>processFile\<close> returns is the object of one data row in which
  each property is a header with the value of that row's cell if the cell is truthy, and
  the empty string if it is falsy (the number 0, NaN, \<open>false\<close>, null, undefined or the
  empty string; a cell beyond the end of the row is undefined); where the headers are
  distinct, every header but \<^verbatim>\<open>__proto__\<close> has this value; and that data row has a truthy
  cell.  A data row all of whose cells are falsy (all zeros, all \<open>false\<close>) is dropped:
  \<open>processFile\<close> returns what it returns for the sheet without that row.
\<close>

theorem xlsx_falsy_cells_blank:
  "pop (split CHR ''.'' (toLowerCase (name f))) = Some ext \<and> (ext = ''xlsx'' \<or> ext = ''xls'') \<and>
   content f = Inr bytes \<and> XLSX_read L bytes = Inr workbook \<and>
   sheet_to_json_rows L (first_sheet workbook) = first_row # rest \<and>
   hs = xlsx_headers (Number_toString L) first_row \<longrightarrow>
     (status (processFile L f) = StatusSuccess \<longrightarrow>
        (\<forall>r \<in> set (data (processFile L f)). \<exists>row \<in> set rest. \<exists>obj.
            r = JObj obj \<and>
            (\<forall>(h, v) \<in> set obj. \<exists>i<length hs. hs ! i = h \<and>
               v = (if truthy (row_get row i) then row_get row i else JStr [])) \<and>
            (distinct hs \<longrightarrow>
               (\<forall>i<length hs. hs ! i \<noteq> ''__proto__'' \<longrightarrow>
                  map_of obj (hs ! i) =
                    Some (if truthy (row_get row i) then row_get row i else JStr []))) \<and>
            (\<exists>i<length hs. truthy (row_get row i)))) \<and>
     (\<forall>before row after.
        rest = before @ row # after \<and> (\<forall>v \<in> set row. \<not> truthy v) \<longrightarrow>
          processFile (L\<lparr>sheet_to_json_rows := \<lambda>_. first_row # before @ after\<rparr>) f =
            processFile L f) \<and>
     processFile_parse L f = Inr (map JObj (xlsx_data hs rest), hs)"
proof (intro impI)
  assume H: "pop (split CHR ''.'' (toLowerCase (name f))) = Some ext \<and>
   (ext = ''xlsx'' \<or> ext = ''xls'') \<and>
   content f = Inr bytes \<and> XLSX_read L bytes = Inr workbook \<and>
   sheet_to_json_rows L (first_sheet workbook) = first_row # rest \<and>
   hs = xlsx_headers (Number_toString L) first_row"
  then have e: "pop (split CHR ''.'' (toLowerCase (name f))) = Some ext"
    and x: "ext = ''xlsx'' \<or> ext = ''xls''" and c: "content f = Inr bytes"
    and w: "XLSX_read L bytes = Inr workbook"
    and s: "sheet_to_json_rows L (first_sheet workbook) = first_row # rest"
    and hs: "hs = xlsx_headers (Number_toString L) first_row" by simp_all
  have parse: "processFile_parse L f = Inr (map JObj (xlsx_data hs rest), hs)"
    by (simp add: processFile_parse_excel [OF e x] c w s hs)
  have objects: "\<forall>r \<in> set (data (processFile L f)). \<exists>row \<in> set rest. \<exists>obj.
            r = JObj obj \<and>
            (\<forall>(h, v) \<in> set obj. \<exists>i<length hs. hs ! i = h \<and>
               v = (if truthy (row_get row i) then row_get row i else JStr [])) \<and>
            (distinct hs \<longrightarrow>
               (\<forall>i<length hs. hs ! i \<noteq> ''__proto__'' \<longrightarrow>
                  map_of obj (hs ! i) =
                    Some (if truthy (row_get row i) then row_get row i else JStr []))) \<and>
            (\<exists>i<length hs. truthy (row_get row i))"
    if ok: "status (processFile L f) = StatusSuccess"
  proof
    fix r
    assume r: "r \<in> set (data (processFile L f))"
    from processFile_success [OF ok] parse
    have "data (processFile L f) = map JObj (xlsx_data hs rest)" by auto
    with r obtain obj where o: "r = JObj obj" and m: "obj \<in> set (xlsx_data hs rest)" by auto
    from xlsx_data_member [OF m] obtain row where row: "row \<in> set rest"
      and obj: "obj = xlsx_row_object hs row" and t: "\<exists>i<length hs. truthy (row_get row i)"
      by blast
    have 1: "\<forall>(h, v) \<in> set obj. \<exists>i<length hs. hs ! i = h \<and>
               v = (if truthy (row_get row i) then row_get row i else JStr [])"
    proof -
      have "\<exists>i<length hs. hs ! i = h \<and>
          v = (if truthy (row_get row i) then row_get row i else JStr [])"
        if "(h, v) \<in> set obj" for h v
        using xlsx_row_object_props [OF that [unfolded obj]] unfolding js_or_def .
      then show ?thesis by blast
    qed
    have 2: "distinct hs \<longrightarrow>
               (\<forall>i<length hs. hs ! i \<noteq> ''__proto__'' \<longrightarrow>
                  map_of obj (hs ! i) =
                    Some (if truthy (row_get row i) then row_get row i else JStr []))"
    proof (intro impI allI)
      fix i
      assume "distinct hs" "i < length hs" "hs ! i \<noteq> ''__proto__''"
      then show "map_of obj (hs ! i) =
          Some (if truthy (row_get row i) then row_get row i else JStr [])"
        using xlsx_row_object_lookup [of hs i row] unfolding js_or_def obj by blast
    qed
    from o row 1 2 t show "\<exists>row \<in> set rest. \<exists>obj.
            r = JObj obj \<and>
            (\<forall>(h, v) \<in> set obj. \<exists>i<length hs. hs ! i = h \<and>
               v = (if truthy (row_get row i) then row_get row i else JStr [])) \<and>
            (distinct hs \<longrightarrow>
               (\<forall>i<length hs. hs ! i \<noteq> ''__proto__'' \<longrightarrow>
                  map_of obj (hs ! i) =
                    Some (if truthy (row_get row i) then row_get row i else JStr []))) \<and>
            (\<exists>i<length hs. truthy (row_get row i))"
      by blast
  qed
  have dropped: "processFile (L\<lparr>sheet_to_json_rows := \<lambda>_. first_row # before @ after\<rparr>) f =
      processFile L f"
    if split: "rest = before @ row # after" and blank: "\<forall>v \<in> set row. \<not> truthy v"
    for before row after
  proof -
    let ?L = "L\<lparr>sheet_to_json_rows := \<lambda>_. first_row # before @ after\<rparr>"
    have "processFile_parse ?L f = Inr (map JObj (xlsx_data hs (before @ after)), hs)"
      by (simp add: processFile_parse_excel [OF e x] c w hs)
    also have "\<dots> = processFile_parse L f"
      by (simp add: parse split xlsx_data_drop [OF blank])
    finally show ?thesis by (simp add: processFile_def processFile_try_def)
  qed
  from objects dropped parse
  show "(status (processFile L f) = StatusSuccess \<longrightarrow>
        (\<forall>r \<in> set (data (processFile L f)). \<exists>row \<in> set rest. \<exists>obj.
            r = JObj obj \<and>
            (\<forall>(h, v) \<in> set obj. \<exists>i<length hs. hs ! i = h \<and>
               v = (if truthy (row_get row i) then row_get row i else JStr [])) \<and>
            (distinct hs \<longrightarrow>
               (\<forall>i<length hs. hs ! i \<noteq> ''__proto__'' \<longrightarrow>
                  map_of obj (hs ! i) =
                    Some (if truthy (row_get row i) then row_get row i else JStr []))) \<and>
            (\<exists>i<length hs. truthy (row_get row i)))) \<and>
     (\<forall>before row after.
        rest = before @ row # after \<and> (\<forall>v \<in> set row. \<not> truthy v) \<longrightarrow>
          processFile (L\<lparr>sheet_to_json_rows := \<lambda>_. first_row # before @ after\<rparr>) f =
            processFile L f) \<and>
     processFile_parse L f = Inr (map JObj (xlsx_data hs rest), hs)"
    by blast
qed

theorem xlsx_falsy_cells_blank_witness:
  "processFile example_libs (example_file ''book.xlsx'' ''book'') =
     \<lparr>ufile = example_file ''book.xlsx'' ''book'',
      data =
        [JObj [(''a'', JNum (Fin 1)), (''b'', JNum (Fin 2))],
         JObj [(''a'', JStr []), (''b'', JStr ''x'')]],
      headers = [''a'', ''b''], status = StatusSuccess, error = None\<rparr> \<and>
   processFile
     (example_libs\<lparr>sheet_to_json_rows :=
        \<lambda>_. [JStr ''a'', JStr ''b''] # [] @
          [[JNum (Fin 1), JNum (Fin 2)], [JNum (Fin 0), JStr ''x'']]\<rparr>)
     (example_file ''book.xlsx'' ''book'') =
   processFile example_libs (example_file ''book.xlsx'' ''book'')"
proof -
  let ?f = "example_file ''book.xlsx'' ''book''"
  have H: "pop (split CHR ''.'' (toLowerCase (name ?f))) = Some ''xlsx'' \<and>
      (''xlsx'' = ''xlsx'' \<or> ''xlsx'' = ''xls'') \<and>
      content ?f = Inr ''book'' \<and>
      XLSX_read example_libs ''book'' =
        Inr \<lparr>SheetNames = [''Sheet1''], Sheets = [(''Sheet1'', ())]\<rparr> \<and>
      sheet_to_json_rows example_libs
          (first_sheet \<lparr>SheetNames = [''Sheet1''], Sheets = [(''Sheet1'', ())]\<rparr>) =
        [JStr ''a'', JStr ''b''] #
          [[JNum (Fin 0), JBool False], [JNum (Fin 1), JNum (Fin 2)],
           [JNum (Fin 0), JStr ''x'']] \<and>
      [''a'', ''b''] = xlsx_headers (Number_toString example_libs) [JStr ''a'', JStr ''b'']"
    by (simp add: run_simps)
  note T = xlsx_falsy_cells_blank [THEN mp, OF H]
  have blank: "[[JNum (Fin 0), JBool False], [JNum (Fin 1), JNum (Fin 2)],
        [JNum (Fin 0), JStr ''x'']] =
      [] @ [JNum (Fin 0), JBool False] #
        [[JNum (Fin 1), JNum (Fin 2)], [JNum (Fin 0), JStr ''x'']] \<and>
      (\<forall>v \<in> set [JNum (Fin 0), JBool False]. \<not> truthy v)"
    by simp
  have 2: "processFile
     (example_libs\<lparr>sheet_to_json_rows :=
        \<lambda>_. [JStr ''a'', JStr ''b''] # [] @
          [[JNum (Fin 1), JNum (Fin 2)], [JNum (Fin 0), JStr ''x'']]\<rparr>) ?f =
     processFile example_libs ?f"
    by (rule T [THEN conjunct2, THEN conjunct1, rule_format, OF blank])
  have 1: "processFile example_libs ?f =
     \<lparr>ufile = ?f,
      data =
        [JObj [(''a'', JNum (Fin 1)), (''b'', JNum (Fin 2))],
         JObj [(''a'', JStr []), (''b'', JStr ''x'')]],
      headers = [''a'', ''b''], status = StatusSuccess, error = None\<rparr>"
    using T [THEN conjunct2, THEN conjunct2]
    by (simp add: processFile_def processFile_try_def check_parsed_def xlsx_data_def
        xlsx_row_object_def set_prop_def array_index_def is_digit_def row_get_def js_or_def)
  from 1 2 show ?thesis by (rule conjI)
qed

subsection \<open>Blank rows of a CSV file\<close>

lemma analyzeDataTypes_objects: "\<exists>types. analyzeDataTypes ok (map JObj rs) = Inr types"
  by (cases rs) (simp_all add: analyzeDataTypes_def)

lemma parseFile_csv_filters:
  assumes e: "map_option toLowerCase (pop (split CHR ''.'' (name f))) = Some ''csv''"
    and c: "content f = Inr text" and p: "papa_errors (Papa_parse L False text) = []"
  shows "\<exists>m. parseFile L now f =
     Inr (map JObj (filter not_blank (papa_data (Papa_parse L False text))), m)"
  using analyzeDataTypes_objects
    [of "Date_parse_ok L" "filter not_blank (papa_data (Papa_parse L False text))"]
  by (auto simp: parseFile_csv [OF e] c p resolve_parsed_def)

lemma processFile_csv_unfiltered:
  assumes e: "pop (split CHR ''.'' (toLowerCase (name f))) = Some ''csv''"
    and c: "content f = Inr text" and p: "papa_errors (Papa_parse L True text) = []"
  shows "processFile_parse L f =
     Inr (map JObj (papa_data (Papa_parse L True text)),
          case papa_fields (Papa_parse L True text) of None \<Rightarrow> [] | Some fs \<Rightarrow> fs)"
  by (simp add: processFile_parse_csv [OF e] c p)

text \<open>
  C3.  The CSV branch of \<open>parseFile\<close> filters the rows whose fields are all empty,
  null or undefined (\<open>parseFile_csv_filters\<close>), and so does the Excel branch of
  \<open>processFile\<close>; the CSV branch of \<open>processFile\<close> returns the rows of the parser as
  they are (\<open>processFile_csv_unfiltered\<close>).  For the text of four lines \<open>a,b\<close>,
  \<open>1,2\<close>, \<open>,\<close>, \<open>3,4\<close>, whose third line is a row of two empty fields, \<open>processFile\<close>
  succeeds with three rows, the blank one among them.
\<close>

theorem processFile_csv_keeps_blank_row:
  "processFile example_libs (example_file ''data.csv'' csv_with_blank_row) =
     \<lparr>ufile = example_file ''data.csv'' csv_with_blank_row,
      data =
        [JObj [(''a'', JNum (Fin 1)), (''b'', JNum (Fin 2))],
         JObj [(''a'', JNull), (''b'', JNull)],
         JObj [(''a'', JNum (Fin 3)), (''b'', JNum (Fin 4))]],
      headers = [''a'', ''b''], status = StatusSuccess, error = None\<rparr>"
  by (simp add: run_simps)

text \<open>\<open>parseFile\<close> on the same file returns the two rows that are not blank.\<close>

lemma parseFile_csv_drops_blank_row:
  "map_sum id fst (parseFile example_libs now (example_file ''data.csv'' csv_with_blank_row)) =
     Inr [JObj [(''a'', JStr ''1''), (''b'', JStr ''2'')],
          JObj [(''a'', JStr ''3''), (''b'', JStr ''4'')]]"
  by (simp add: run_simps)

subsection \<open>The root of a JSON file\<close>

text \<open>\<open>processFile\<close> rejects a root that is a number, a string or a boolean.\<close>

lemma processFile_json_primitive:
  assumes e: "pop (split CHR ''.'' (toLowerCase (name f))) = Some ''json''"
    and c: "content f = Inr text" and j: "JSON_parse L text = Inr v"
    and v: "typeof v = ''number'' \<or> typeof v = ''string'' \<or> typeof v = ''boolean''"
  shows "processFile L f =
     \<lparr>ufile = f, data = [], headers = [], status = StatusError,
      error = Some ''JSON must be an array or object''\<rparr>"
proof -
  have "processFile_parse L f = Inl (Error ''JSON must be an array or object'')"
    using v by (cases v) (simp_all add: processFile_parse_json [OF e c j])
  then show ?thesis by (simp add: processFile_def processFile_try_def)
qed

text \<open>\<open>parseFile\<close> wraps it into a list of one row and succeeds.\<close>

lemma parseFile_json_primitive:
  assumes e: "map_option toLowerCase (pop (split CHR ''.'' (name f))) = Some ''json''"
    and c: "content f = Inr text" and j: "JSON_parse L text = Inr v"
    and v: "typeof v = ''number'' \<or> typeof v = ''string'' \<or> typeof v = ''boolean''"
  shows "\<exists>m. parseFile L now f = Inr ([v], m)"
  using v by (cases v) (simp_all add: parseFile_json [OF e] c j resolve_parsed_def analyzeDataTypes_def)

text \<open>
  C5.  For the JSON file whose text is \<open>5\<close>, a bare number, \<open>parseFile\<close> does not
  fail: it resolves with the one row \<open>5\<close>, no columns and no detected types, where
  \<open>processFile\<close> fails with \<open>JSON must be an array or object\<close>.
\<close>

theorem parseFile_json_bare_number:
  "parseFile example_libs ''2026-11-02T09:00:00.000Z'' (example_file ''n.json'' ''5'') =
     Inr ([JNum (Fin 5)],
          \<lparr>filename = ''n.json'', filesize = 1, filetype = Some ''json'',
           uploadedAt = ''2026-11-02T09:00:00.000Z'', sheetName = None, columns = [],
           rows = 1, detectedTypes = []\<rparr>)"
  by (simp add: run_simps)

lemma processFile_json_bare_number:
  "processFile example_libs (example_file ''n.json'' ''5'') =
     \<lparr>ufile = example_file ''n.json'' ''5'', data = [], headers = [], status = StatusError,
      error = Some ''JSON must be an array or object''\<rparr>"
  by (simp add: run_simps)

subsection \<open>A key named __proto__ in a JSON file\<close>

text \<open>
  \<open>parseFile\<close> on the JSON file \<^verbatim>\<open>[{"__proto__": 1, "age": 30}]\<close>: the columns list the
  key \<^verbatim>\<open>__proto__\<close>, and the detected types have no tag for it.
\<close>

lemma parseFile_json_proto_key:
  "parseFile example_libs now (example_file ''rows.json'' json_proto_key) =
     Inr ([JObj [(''__proto__'', JNum (Fin 1)), (''age'', JNum (Fin 30))]],
          \<lparr>filename = ''rows.json'', filesize = 29, filetype = Some ''json'',
           uploadedAt = now, sheetName = None, columns = [''__proto__'', ''age''],
           rows = 1, detectedTypes = [(''age'', ''number'')]\<rparr>)"
  by (simp add: run_simps)

subsection \<open>Determinism\<close>

text \<open>
  C9.  The rows and headers do not depend on anything but the file: for two files of
  the same name and contents (the same file read twice, whatever size is reported),
  \<open>processFile\<close> returns the same rows, headers, status and message, and \<open>parseFile\<close>,
  run at two different times \<open>t1\<close> and \<open>t2\<close>, returns the same error or the same rows,
  columns, row count and detected types.  The libraries are functions of their
  arguments; the clock reaches \<open>uploadedAt\<close> of the metadata only
  (\<open>parseFile_uploadedAt\<close>).
\<close>

theorem parse_deterministic:
  "name f = name g \<and> content f = content g \<longrightarrow>
     data (processFile L f) = data (processFile L g) \<and>
     headers (processFile L f) = headers (processFile L g) \<and>
     status (processFile L f) = status (processFile L g) \<and>
     error (processFile L f) = error (processFile L g) \<and>
     map_sum id (\<lambda>(d, m). (d, columns m, rows m, detectedTypes m)) (parseFile L t1 f) =
     map_sum id (\<lambda>(d, m). (d, columns m, rows m, detectedTypes m)) (parseFile L t2 g)"
proof (intro impI)
  assume a: "name f = name g \<and> content f = content g"
  then have n: "name f = name g" and c: "content f = content g" by simp_all
  have p: "processFile_parse L f = processFile_parse L g"
    by (rule processFile_parse_cong [OF n c])
  have pf: "data (processFile L f) = data (processFile L g) \<and>
     headers (processFile L f) = headers (processFile L g) \<and>
     status (processFile L f) = status (processFile L g) \<and>
     error (processFile L f) = error (processFile L g)"
    by (simp add: processFile_def processFile_try_def p split: sum.splits)
  from pf parseFile_clock [OF n c, of L t1 t2]
  show "data (processFile L f) = data (processFile L g) \<and>
     headers (processFile L f) = headers (processFile L g) \<and>
     status (processFile L f) = status (processFile L g) \<and>
     error (processFile L f) = error (processFile L g) \<and>
     map_sum id (\<lambda>(d, m). (d, columns m, rows m, detectedTypes m)) (parseFile L t1 f) =
     map_sum id (\<lambda>(d, m). (d, columns m, rows m, detectedTypes m)) (parseFile L t2 g)"
    by blast
qed

theorem parse_deterministic_witness:
  "data (processFile example_libs (example_file ''book.xlsx'' ''book'')) =
     data (processFile example_libs \<lparr>name = ''book.xlsx'', fsize = 0, content = Inr ''book''\<rparr>) \<and>
   headers (processFile example_libs (example_file ''book.xlsx'' ''book'')) =
     headers (processFile example_libs \<lparr>name = ''book.xlsx'', fsize = 0, content = Inr ''book''\<rparr>) \<and>
   map_sum id (\<lambda>(d, m). (d, columns m, rows m, detectedTypes m))
     (parseFile example_libs ''2026-11-02T09:00:00.000Z'' (example_file ''book.xlsx'' ''book'')) =
   map_sum id (\<lambda>(d, m). (d, columns m, rows m, detectedTypes m))
     (parseFile example_libs ''2026-11-02T09:00:05.000Z''
        \<lparr>name = ''book.xlsx'', fsize = 0, content = Inr ''book''\<rparr>)"
proof -
  have "name (example_file ''book.xlsx'' ''book'') =
      name \<lparr>name = ''book.xlsx'', fsize = 0, content = Inr ''book''\<rparr> \<and>
    content (example_file ''book.xlsx'' ''book'') =
      content \<lparr>name = ''book.xlsx'', fsize = 0, content = Inr ''book''\<rparr>"
    by (simp add: example_file_def)
  then show ?thesis
    using parse_deterministic [of "example_file ''book.xlsx'' ''book''"
      "\<lparr>name = ''book.xlsx'', fsize = 0, content = Inr ''book''\<rparr>" example_libs
      "''2026-11-02T09:00:00.000Z''" "''2026-11-02T09:00:05.000Z''"]
    by blast
qed

lemma parseFile_uploadedAt:
  assumes "parseFile L now f = Inr (d, m)"
  shows "uploadedAt m = now"
proof -
  let ?E = "map_option toLowerCase (pop (split CHR ''.'' (name f)))"
  consider (csv) "?E = Some ''csv''" | (xlsx) "?E = Some ''xlsx''" | (xls) "?E = Some ''xls''"
    | (json) "?E = Some ''json''"
    | (other) "?E \<noteq> Some ''csv''" "?E \<noteq> Some ''xlsx''" "?E \<noteq> Some ''xls''"
        "?E \<noteq> Some ''json''"
    by blast
  then show ?thesis
  proof cases
    case csv
    show ?thesis
      using assms unfolding parseFile_csv [OF csv]
      by (auto simp: resolve_parsed_def split: sum.splits list.splits)
  next
    case xlsx
    show ?thesis
      using assms unfolding parseFile_excel [OF xlsx disjI1 [OF refl]]
      by (auto simp: resolve_parsed_def split: sum.splits list.splits)
  next
    case xls
    show ?thesis
      using assms unfolding parseFile_excel [OF xls disjI2 [OF refl]]
      by (auto simp: resolve_parsed_def split: sum.splits list.splits)
  next
    case json
    show ?thesis
      using assms unfolding parseFile_json [OF json]
      by (auto simp: resolve_parsed_def split: sum.splits list.splits)
  next
    case other
    show ?thesis
      using assms unfolding parseFile_other [OF refl other] by simp
  qed
qed

end
